theory Spec2Isabelle
  imports Main "HOL-Library.Sublist"
begin

section \<open>Python values and exceptions\<close>

text \<open>
  A Python \<open>str\<close> is modelled by its UTF-8 bytes, a \<open>bytes\<close> object by its bytes; both
  are HOL strings (a HOL character is one byte). A \<open>str\<close> is ASCII exactly when every
  byte is below 128, and \<open>str.encode()\<close> is the identity on this representation.
\<close>

type_synonym bytes = string

datatype exn =
    ValueError
  | TypeError
  | KeyError
  | JSONDecodeError
  | CalledProcessError
  | OSError
  | HTTPError
  | ConnectionError
  | Timeout
  | BadRequest
  | UnsupportedMediaType

definition encode :: "string \<Rightarrow> bytes" where
  "encode s = s"

section \<open>Signature verification (\<open>verify_signature\<close>)\<close>

text \<open>\<open>bytes.hex()\<close> / \<open>hexdigest()\<close>: two lower-case hexadecimal digits per byte.\<close>

definition hexchar :: "nat \<Rightarrow> char" where
  "hexchar n = ''0123456789abcdef'' ! (n mod 16)"

definition hex_byte :: "char \<Rightarrow> string" where
  "hex_byte b = [hexchar ((of_char b :: nat) div 16), hexchar ((of_char b :: nat) mod 16)]"

definition hexdigest :: "bytes \<Rightarrow> string" where
  "hexdigest bs = concat (map hex_byte bs)"

text \<open>\<open>s.split(sep)\<close> for a one-character separator: never the empty list.\<close>

fun split_str :: "char \<Rightarrow> string \<Rightarrow> string list" where
  "split_str sep [] = [[]]"
| "split_str sep (c # cs) =
     (if c = sep then [] # split_str sep cs
      else (case split_str sep cs of
              [] \<Rightarrow> [[c]]
            | x # xs \<Rightarrow> (c # x) # xs))"

definition is_ascii :: "string \<Rightarrow> bool" where
  "is_ascii s = list_all (\<lambda>c. (of_char c :: nat) < 128) s"

text \<open>
  \<open>hmac.compare_digest(a, b)\<close> on two \<open>str\<close> arguments: a \<open>TypeError\<close> unless both are
  ASCII, otherwise their equality (the constant running time is not modelled).
\<close>

definition compare_digest :: "string \<Rightarrow> string \<Rightarrow> exn + bool" where
  "compare_digest a b =
     (if is_ascii a \<and> is_ascii b then Inr (a = b) else Inl TypeError)"

text \<open>
  \<open>verify_signature\<close>, with the module-level \<open>WEBHOOK_SECRET\<close> and the keyed hash
  \<open>hmac.new(key, msg, sha256).digest()\<close> of the standard library as parameters.
  The tuple assignment \<open>algo, github_sig = signature_header.split("=")\<close> raises
  \<open>ValueError\<close> unless the split has exactly two parts.
\<close>

definition verify_signature ::
  "(bytes \<Rightarrow> bytes \<Rightarrow> bytes) \<Rightarrow> string \<Rightarrow> bytes \<Rightarrow> string \<Rightarrow> exn + bool" where
  "verify_signature hmac_sha256 secret payload signature_header =
     (if secret = [] then Inr True
      else if signature_header = [] then Inr False
      else (case split_str CHR ''='' signature_header of
              [algo, github_sig] \<Rightarrow>
                (let digest = hexdigest (hmac_sha256 (encode secret) payload)
                 in compare_digest digest github_sig)
            | _ \<Rightarrow> Inl ValueError))"

text \<open>A stand-in keyed hash for concrete evaluations; the theorems hold for every one.\<close>

definition demo_mac :: "bytes \<Rightarrow> bytes \<Rightarrow> bytes" where
  "demo_mac key msg = key @ msg"

section \<open>JSON values and the Python operations on them\<close>

datatype json =
    JNull
  | JBool bool
  | JNum int
  | JStr string
  | JArr "json list"
  | JObj "(string \<times> json) list"

text \<open>\<open>v[key]\<close> for a string key: \<open>KeyError\<close> on a dict without the key, \<open>TypeError\<close> on
  every value that is not a dict.\<close>

fun py_getitem :: "json \<Rightarrow> string \<Rightarrow> exn + json" where
  "py_getitem (JObj kvs) k = (case map_of kvs k of None \<Rightarrow> Inl KeyError | Some v \<Rightarrow> Inr v)"
| "py_getitem _ k = Inl TypeError"

text \<open>\<open>for i in v\<close>: the elements of a list, the keys of a dict, the characters of a
  string (one per byte here, one per code point in Python; each of them a string);
  every other value is not iterable.\<close>

fun py_iter :: "json \<Rightarrow> exn + json list" where
  "py_iter (JArr xs) = Inr xs"
| "py_iter (JObj kvs) = Inr (map (\<lambda>kv. JStr (fst kv)) kvs)"
| "py_iter (JStr s) = Inr (map (\<lambda>c. JStr [c]) s)"
| "py_iter _ = Inl TypeError"

section \<open>The world: external calls made and the comments of the pull request\<close>

datatype effect =
    SetStatus json json string string
  | ListComments json json
  | DeleteComment json nat
  | PostComment json json string
  | Mkdtemp
  | Rmtree
  | Run "json list"

record comment =
  c_id :: nat
  body :: string

record world =
  trace :: "effect list"
  comments :: "comment list"

text \<open>What a call of \<open>requests\<close> gives: the call raises (connection error, timeout),
  or GitHub answers with a status code.\<close>

datatype http_result =
    Transport_error exn
  | Response nat

section \<open>The environment of one delivery\<close>

record completed =
  returncode :: int
  stdout :: string

type_synonym proc = "exn + completed"

text \<open>
  What lies outside the program, fixed for one delivery: the configured secret, the
  library functions the handler calls (keyed hash, \<open>json.loads\<close> with \<open>None\<close> for
  \<open>JSONDecodeError\<close>, \<open>str.splitlines\<close>, \<open>str()\<close> formatting), what each external
  process does when it is started (\<open>Inl\<close>: \<open>subprocess.run\<close> itself raises), whether
  \<open>tempfile.mkdtemp\<close> raises, what each request to GitHub gives, and which comments the body of the answer to the listing
  holds, given the comments of the pull request (the code reads one answer and asks
  for no further page).
\<close>

record env =
  WEBHOOK_SECRET :: string
  hmac_sha256 :: "bytes \<Rightarrow> bytes \<Rightarrow> bytes"
  json_loads :: "string \<Rightarrow> json option"
  splitlines :: "string \<Rightarrow> string list"
  py_str :: "json \<Rightarrow> string"
  git_clone :: proc
  git_fetch :: proc
  git_checkout :: proc
  git_diff :: proc
  ruff_check :: proc
  ruff_format :: proc
  pytest :: proc
  mkdtemp :: "exn option"
  github :: "effect \<Rightarrow> http_result"
  listed :: "comment list \<Rightarrow> comment list"

section \<open>Recording calls and running processes\<close>

definition emit :: "effect \<Rightarrow> world \<Rightarrow> world" where
  "emit e w = w\<lparr>trace := trace w @ [e]\<rparr>"

text \<open>\<open>subprocess.run(cmd, ..., check=check)\<close>; \<open>run\<close> is the module's wrapper with
  \<open>check=True\<close>.\<close>

definition subprocess_run ::
  "json list \<Rightarrow> proc \<Rightarrow> bool \<Rightarrow> world \<Rightarrow> world \<times> (exn + completed)" where
  "subprocess_run cmd outcome check w =
     (let w' = emit (Run cmd) w in
      case outcome of
        Inl e \<Rightarrow> (w', Inl e)
      | Inr p \<Rightarrow>
          if check \<and> returncode p \<noteq> 0 then (w', Inl CalledProcessError)
          else (w', Inr p))"

definition run :: "json list \<Rightarrow> proc \<Rightarrow> world \<Rightarrow> world \<times> (exn + completed)" where
  "run cmd outcome w = subprocess_run cmd outcome True w"

section \<open>\<open>GitHubClient\<close>\<close>

text \<open>
  Each method makes one request. A call of \<open>requests\<close> either raises or returns the
  answer; \<open>set_status\<close>, \<open>delete_comment\<close> and \<open>post_pr_comment\<close> do not read the
  answer, \<open>list_pr_comments\<close> calls \<open>raise_for_status\<close> on it and returns its body. On
  GitHub's side, a deletion or a post that is answered with a success status (2xx) takes
  effect (the comment with that id is gone, a comment with a fresh id is added), and
  every other request leaves the comments as they are. The token and the request
  headers have no part in any result and are left out.
\<close>

record GitHubClient =
  repo :: json

definition BOT_MARKER :: string where
  "BOT_MARKER = ''<!-- code-review-bot -->''"

definition success_status :: "nat \<Rightarrow> bool" where
  "success_status status_code = (200 \<le> status_code \<and> status_code < 300)"

text \<open>\<open>requests.get\<close>, \<open>requests.post\<close>, \<open>requests.delete\<close>: the request is recorded,
  and the call raises or returns the status code of the answer.\<close>

definition requests_call :: "env \<Rightarrow> effect \<Rightarrow> world \<Rightarrow> world \<times> (exn + nat)" where
  "requests_call ev rq w =
     (let w' = emit rq w in
      case github ev rq of
        Transport_error e \<Rightarrow> (w', Inl e)
      | Response status_code \<Rightarrow> (w', Inr status_code))"

definition set_status ::
  "env \<Rightarrow> GitHubClient \<Rightarrow> json \<Rightarrow> string \<Rightarrow> string \<Rightarrow> world \<Rightarrow> world \<times> (exn + unit)" where
  "set_status ev gh sha state description w =
     (case requests_call ev (SetStatus (repo gh) sha state description) w of
        (w', Inl e) \<Rightarrow> (w', Inl e)
      | (w', Inr _) \<Rightarrow> (w', Inr ()))"

text \<open>\<open>resp.raise_for_status()\<close>, on the status code of the answer.\<close>

definition raise_for_status :: "nat \<Rightarrow> exn + unit" where
  "raise_for_status status_code =
     (if 400 \<le> status_code \<and> status_code < 600 then Inl HTTPError else Inr ())"

definition list_pr_comments ::
  "env \<Rightarrow> GitHubClient \<Rightarrow> json \<Rightarrow> world \<Rightarrow> world \<times> (exn + comment list)" where
  "list_pr_comments ev gh pr_number w =
     (case requests_call ev (ListComments (repo gh) pr_number) w of
        (w', Inl e) \<Rightarrow> (w', Inl e)
      | (w', Inr status_code) \<Rightarrow>
          (case raise_for_status status_code of
             Inl e \<Rightarrow> (w', Inl e)
           | Inr _ \<Rightarrow> (w', Inr (listed ev (comments w')))))"

definition delete_comment ::
  "env \<Rightarrow> GitHubClient \<Rightarrow> nat \<Rightarrow> world \<Rightarrow> world \<times> (exn + unit)" where
  "delete_comment ev gh comment_id w =
     (case requests_call ev (DeleteComment (repo gh) comment_id) w of
        (w', Inl e) \<Rightarrow> (w', Inl e)
      | (w', Inr status_code) \<Rightarrow>
          ((if success_status status_code
            then w'\<lparr>comments := filter (\<lambda>c. c_id c \<noteq> comment_id) (comments w')\<rparr>
            else w'),
           Inr ()))"

definition fresh_id :: "comment list \<Rightarrow> nat" where
  "fresh_id cs = Suc (fold max (map c_id cs) 0)"

definition post_pr_comment ::
  "env \<Rightarrow> GitHubClient \<Rightarrow> json \<Rightarrow> string \<Rightarrow> world \<Rightarrow> world \<times> (exn + unit)" where
  "post_pr_comment ev gh pr_number b w =
     (case requests_call ev (PostComment (repo gh) pr_number b) w of
        (w', Inl e) \<Rightarrow> (w', Inl e)
      | (w', Inr status_code) \<Rightarrow>
          ((if success_status status_code
            then w'\<lparr>comments := comments w' @ [\<lparr>c_id = fresh_id (comments w'), body = b\<rparr>]\<rparr>
            else w'),
           Inr ()))"

section \<open>\<open>CodeReviewer\<close>\<close>

text \<open>One entry of \<open>self.errors\<close>: a dict with exactly these five keys (\<open>file_name\<close> is the key
  \<open>file\<close>).\<close>

record finding =
  file_name :: json
  line :: json
  column :: json
  code :: json
  message :: json

record CodeReviewer =
  repo_url :: json
  base_ref :: json
  head_sha :: json
  errors :: "finding list"

text \<open>\<open>__init__\<close>: the temporary directory is created (its path has no part in any
  result), \<open>errors\<close> starts empty.\<close>

definition CodeReviewer_init ::
  "env \<Rightarrow> json \<Rightarrow> json \<Rightarrow> json \<Rightarrow> world \<Rightarrow> world \<times> (exn + CodeReviewer)" where
  "CodeReviewer_init ev url base sha w =
     (let w' = emit Mkdtemp w in
      case mkdtemp ev of
        Some e \<Rightarrow> (w', Inl e)
      | None \<Rightarrow> (w', Inr \<lparr>repo_url = url, base_ref = base, head_sha = sha, errors = []\<rparr>))"

text \<open>\<open>shutil.rmtree(workdir, ignore_errors=True)\<close>: never raises.\<close>

definition cleanup :: "CodeReviewer \<Rightarrow> world \<Rightarrow> world" where
  "cleanup self w = emit Rmtree w"

definition clone_repo :: "env \<Rightarrow> CodeReviewer \<Rightarrow> world \<Rightarrow> world \<times> (exn + unit)" where
  "clone_repo ev self w =
     (case run [JStr ''git'', JStr ''clone'', repo_url self, JStr ''.''] (git_clone ev) w of
        (w1, Inl e) \<Rightarrow> (w1, Inl e)
      | (w1, Inr _) \<Rightarrow>
     (case run [JStr ''git'', JStr ''fetch'', JStr ''origin'', base_ref self] (git_fetch ev) w1 of
        (w2, Inl e) \<Rightarrow> (w2, Inl e)
      | (w2, Inr _) \<Rightarrow>
     (case run [JStr ''git'', JStr ''checkout'', head_sha self] (git_checkout ev) w2 of
        (w3, Inl e) \<Rightarrow> (w3, Inl e)
      | (w3, Inr _) \<Rightarrow> (w3, Inr ()))))"

definition changed_python_files ::
  "env \<Rightarrow> CodeReviewer \<Rightarrow> world \<Rightarrow> world \<times> (exn + string list)" where
  "changed_python_files ev self w =
     (case run [JStr ''git'', JStr ''diff'', JStr ''--name-only'',
                JStr (''origin/'' @ py_str ev (base_ref self)), head_sha self]
               (git_diff ev) w of
        (w1, Inl e) \<Rightarrow> (w1, Inl e)
      | (w1, Inr result) \<Rightarrow>
          (w1, Inr (filter (\<lambda>f. suffix ''.py'' f) (splitlines ev (stdout result)))))"

text \<open>The dict built for one linter issue; the subscripts are evaluated in the order of
  the source, and the first failing one raises.\<close>

definition issue_finding :: "json \<Rightarrow> exn + finding" where
  "issue_finding i =
     (case py_getitem i ''filename'' of Inl e \<Rightarrow> Inl e | Inr fl \<Rightarrow>
     (case py_getitem i ''location'' of Inl e \<Rightarrow> Inl e | Inr loc1 \<Rightarrow>
     (case py_getitem loc1 ''row'' of Inl e \<Rightarrow> Inl e | Inr row \<Rightarrow>
     (case py_getitem i ''location'' of Inl e \<Rightarrow> Inl e | Inr loc2 \<Rightarrow>
     (case py_getitem loc2 ''column'' of Inl e \<Rightarrow> Inl e | Inr col \<Rightarrow>
     (case py_getitem i ''code'' of Inl e \<Rightarrow> Inl e | Inr cd \<Rightarrow>
     (case py_getitem i ''message'' of Inl e \<Rightarrow> Inl e | Inr msg \<Rightarrow>
        Inr \<lparr>file_name = fl, line = row, column = col, code = cd, message = msg\<rparr>)))))))"

text \<open>The loop \<open>for i in issues: self.errors.append({...})\<close>; the entries appended
  before an exception stay.\<close>

fun append_issues :: "json list \<Rightarrow> finding list \<Rightarrow> finding list \<times> (exn + unit)" where
  "append_issues [] errs = (errs, Inr ())"
| "append_issues (i # rest) errs =
     (case issue_finding i of
        Inl e \<Rightarrow> (errs, Inl e)
      | Inr f \<Rightarrow> append_issues rest (errs @ [f]))"

definition run_ruff ::
  "env \<Rightarrow> CodeReviewer \<Rightarrow> string list \<Rightarrow> world \<Rightarrow> CodeReviewer \<times> world \<times> (exn + unit)" where
  "run_ruff ev self files w =
     (if files = [] then (self, w, Inr ())
      else
        (case subprocess_run
                (map JStr ([''ruff'', ''check'', ''--output-format=json''] @ files))
                (ruff_check ev) False w of
           (w1, Inl e) \<Rightarrow> (self, w1, Inl e)
         | (w1, Inr p) \<Rightarrow>
             if stdout p \<noteq> [] then
               (case json_loads ev (stdout p) of
                  None \<Rightarrow> (self, w1, Inl JSONDecodeError)
                | Some issues \<Rightarrow>
                    (case py_iter issues of
                       Inl e \<Rightarrow> (self, w1, Inl e)
                     | Inr items \<Rightarrow>
                         (case append_issues items (errors self) of
                            (errs, r) \<Rightarrow> (self\<lparr>errors := errs\<rparr>, w1, r))))
             else (self, w1, Inr ())))"

definition format_finding :: "string \<Rightarrow> finding" where
  "format_finding f =
     \<lparr>file_name = JStr f, line = JNum 1, column = JNum 1, code = JStr ''FORMAT'',
      message = JStr ''File is not properly formatted''\<rparr>"

definition run_format_check ::
  "env \<Rightarrow> CodeReviewer \<Rightarrow> string list \<Rightarrow> world \<Rightarrow> CodeReviewer \<times> world \<times> (exn + unit)" where
  "run_format_check ev self files w =
     (if files = [] then (self, w, Inr ())
      else
        (case subprocess_run (map JStr ([''ruff'', ''format'', ''--check''] @ files))
                (ruff_format ev) False w of
           (w1, Inl e) \<Rightarrow> (self, w1, Inl e)
         | (w1, Inr p) \<Rightarrow>
             if returncode p \<noteq> 0 then
               (self\<lparr>errors := errors self @ map format_finding files\<rparr>, w1, Inr ())
             else (self, w1, Inr ())))"

definition test_finding :: finding where
  "test_finding =
     \<lparr>file_name = JStr ''tests/'', line = JNum 1, column = JNum 1, code = JStr ''TEST'',
      message = JStr ''Tests failed''\<rparr>"

definition run_pytest ::
  "env \<Rightarrow> CodeReviewer \<Rightarrow> world \<Rightarrow> CodeReviewer \<times> world \<times> (exn + unit)" where
  "run_pytest ev self w =
     (case subprocess_run [JStr ''pytest'', JStr ''-q''] (pytest ev) False w of
        (w1, Inl e) \<Rightarrow> (self, w1, Inl e)
      | (w1, Inr p) \<Rightarrow>
          if returncode p \<noteq> 0 then (self\<lparr>errors := errors self @ [test_finding]\<rparr>, w1, Inr ())
          else (self, w1, Inr ()))"

definition run_all ::
  "env \<Rightarrow> CodeReviewer \<Rightarrow> world \<Rightarrow> CodeReviewer \<times> world \<times> (exn + bool)" where
  "run_all ev self w =
     (case changed_python_files ev self w of
        (w1, Inl e) \<Rightarrow> (self, w1, Inl e)
      | (w1, Inr files) \<Rightarrow>
     (case run_ruff ev self files w1 of
        (s2, w2, Inl e) \<Rightarrow> (s2, w2, Inl e)
      | (s2, w2, Inr _) \<Rightarrow>
     (case run_format_check ev s2 files w2 of
        (s3, w3, Inl e) \<Rightarrow> (s3, w3, Inl e)
      | (s3, w3, Inr _) \<Rightarrow>
     (case run_pytest ev s3 w3 of
        (s4, w4, Inl e) \<Rightarrow> (s4, w4, Inl e)
      | (s4, w4, Inr _) \<Rightarrow> (s4, w4, Inr (errors s4 = []))))))"

text \<open>The comment body. The symbols of the source that are not ASCII are written as
  their UTF-8 bytes.\<close>

definition newline :: char where
  "newline = CHR 0x0A"

definition utf8_magnifier :: string where
  "utf8_magnifier = [CHR 0xF0, CHR 0x9F, CHR 0x94, CHR 0x8D]"

definition utf8_check_mark :: string where
  "utf8_check_mark = [CHR 0xE2, CHR 0x9C, CHR 0x85]"

definition utf8_cross_mark :: string where
  "utf8_cross_mark = [CHR 0xE2, CHR 0x9D, CHR 0x8C]"

definition utf8_em_dash :: string where
  "utf8_em_dash = [CHR 0xE2, CHR 0x80, CHR 0x94]"

definition finding_line :: "env \<Rightarrow> finding \<Rightarrow> string" where
  "finding_line ev e =
     ''- `'' @ py_str ev (file_name e) @ ''` **'' @ py_str ev (line e) @ '':'' @
     py_str ev (column e) @ ''** `'' @ py_str ev (code e) @ ''` '' @ utf8_em_dash @ '' '' @
     py_str ev (message e) @ [newline]"

definition build_comment :: "env \<Rightarrow> CodeReviewer \<Rightarrow> string" where
  "build_comment ev self =
     (let b = BOT_MARKER @ [newline] @ ''## '' @ utf8_magnifier @ '' Code Review Results'' @
              [newline, newline]
      in if errors self = [] then b @ utf8_check_mark @ '' All checks passed!''
         else b @ utf8_cross_mark @ '' Found **'' @
              py_str ev (JNum (int (length (errors self)))) @ ''** issue(s):'' @
              [newline, newline] @ concat (map (finding_line ev) (errors self)))"

section \<open>The webhook handler\<close>

text \<open>
  The request as Flask hands it over: the raw body, the two headers (absent: \<open>None\<close>)
  and what \<open>request.json\<close> gives: the parsed body, or the exception that Flask raises
  for a body that is not JSON (\<open>BadRequest\<close>) or is not sent as JSON
  (\<open>UnsupportedMediaType\<close>). The answer is the JSON body passed to \<open>jsonify\<close> and the
  status code; an exception leaving the handler is \<open>Inl\<close>.
\<close>

record request =
  data :: bytes
  X_Hub_Signature_256 :: "string option"
  X_GitHub_Event :: "string option"
  json_payload :: "exn + json"

datatype reply =
    ErrorBody string
  | MessageBody string
  | SuccessBody bool

type_synonym response = "reply \<times> nat"

text \<open>The fields read from the payload (lines 245 to 250), in the order of the source.\<close>

record pr_fields =
  pr_repo :: json
  pr_number :: json
  pr_base_ref :: json
  pr_head_sha :: json
  pr_clone_url :: json

definition webhook_fields :: "json \<Rightarrow> exn + pr_fields" where
  "webhook_fields payload =
     (case py_getitem payload ''pull_request'' of Inl e \<Rightarrow> Inl e | Inr pr \<Rightarrow>
     (case py_getitem payload ''repository'' of Inl e \<Rightarrow> Inl e | Inr rp1 \<Rightarrow>
     (case py_getitem rp1 ''full_name'' of Inl e \<Rightarrow> Inl e | Inr full_name \<Rightarrow>
     (case py_getitem pr ''number'' of Inl e \<Rightarrow> Inl e | Inr num \<Rightarrow>
     (case py_getitem pr ''base'' of Inl e \<Rightarrow> Inl e | Inr base \<Rightarrow>
     (case py_getitem base ''ref'' of Inl e \<Rightarrow> Inl e | Inr bref \<Rightarrow>
     (case py_getitem pr ''head'' of Inl e \<Rightarrow> Inl e | Inr head \<Rightarrow>
     (case py_getitem head ''sha'' of Inl e \<Rightarrow> Inl e | Inr sha \<Rightarrow>
     (case py_getitem payload ''repository'' of Inl e \<Rightarrow> Inl e | Inr rp2 \<Rightarrow>
     (case py_getitem rp2 ''clone_url'' of Inl e \<Rightarrow> Inl e | Inr url \<Rightarrow>
        Inr \<lparr>pr_repo = full_name, pr_number = num, pr_base_ref = bref,
             pr_head_sha = sha, pr_clone_url = url\<rparr>))))))))))"

text \<open>The body of the \<open>try\<close> statement: \<open>clone_repo\<close>, then \<open>run_all\<close>.\<close>

definition try_body ::
  "env \<Rightarrow> CodeReviewer \<Rightarrow> world \<Rightarrow> CodeReviewer \<times> world \<times> (exn + bool)" where
  "try_body ev reviewer w =
     (case clone_repo ev reviewer w of
        (w1, Inl e) \<Rightarrow> (reviewer, w1, Inl e)
      | (w1, Inr _) \<Rightarrow> run_all ev reviewer w1)"

text \<open>Lines 252 to 264: the pending status, the reviewer, and the \<open>try\<close> statement with
  its \<open>except\<close> clause (status \<open>error\<close>, then re-raise) and its \<open>finally\<close> clause. When
  the status request of the \<open>except\<close> clause raises, \<open>raise e\<close> is not reached and that
  exception leaves the handler; the \<open>finally\<close> clause runs in every case.\<close>

definition webhook_review ::
  "env \<Rightarrow> pr_fields \<Rightarrow> world \<Rightarrow> world \<times> (exn + CodeReviewer \<times> bool)" where
  "webhook_review ev f w =
     (let gh = \<lparr>repo = pr_repo f\<rparr> in
      case set_status ev gh (pr_head_sha f) ''pending'' ''Running code quality checks'' w of
        (w1, Inl e) \<Rightarrow> (w1, Inl e)
      | (w1, Inr _) \<Rightarrow>
      (case CodeReviewer_init ev (pr_clone_url f) (pr_base_ref f) (pr_head_sha f) w1 of
        (w2, Inl e) \<Rightarrow> (w2, Inl e)
      | (w2, Inr reviewer) \<Rightarrow>
          (case try_body ev reviewer w2 of
             (r, w3, Inl e) \<Rightarrow>
               (case set_status ev gh (pr_head_sha f) ''error'' ''CI execution failed'' w3 of
                  (w4, Inl e') \<Rightarrow> (cleanup r w4, Inl e')
                | (w4, Inr _) \<Rightarrow> (cleanup r w4, Inl e))
           | (r, w3, Inr success) \<Rightarrow> (cleanup r w3, Inr (r, success)))))"

text \<open>The loop of lines 267 to 269 over the listing; a deletion that raises ends it.\<close>

fun delete_marked ::
  "env \<Rightarrow> GitHubClient \<Rightarrow> comment list \<Rightarrow> world \<Rightarrow> world \<times> (exn + unit)" where
  "delete_marked ev gh [] w = (w, Inr ())"
| "delete_marked ev gh (c # cs) w =
     (if sublist BOT_MARKER (body c)
      then (case delete_comment ev gh (c_id c) w of
              (w', Inl e) \<Rightarrow> (w', Inl e)
            | (w', Inr _) \<Rightarrow> delete_marked ev gh cs w')
      else delete_marked ev gh cs w)"

text \<open>Lines 271 to 279: the final status and, with findings, the new comment.\<close>

definition final_report ::
  "env \<Rightarrow> pr_fields \<Rightarrow> CodeReviewer \<Rightarrow> bool \<Rightarrow> world \<Rightarrow> world \<times> (exn + unit)" where
  "final_report ev f reviewer success w =
     (let gh = \<lparr>repo = pr_repo f\<rparr> in
      if success
      then set_status ev gh (pr_head_sha f) ''success'' ''All checks passed'' w
      else
        (case set_status ev gh (pr_head_sha f) ''failure''
                (''Found '' @ py_str ev (JNum (int (length (errors reviewer)))) @ '' issue(s)'')
                w of
           (w1, Inl e) \<Rightarrow> (w1, Inl e)
         | (w1, Inr _) \<Rightarrow>
             post_pr_comment ev gh (pr_number f) (build_comment ev reviewer) w1))"

text \<open>Lines 266 to 281: the old comments, the final status, the new comment, the answer.\<close>

definition webhook_report ::
  "env \<Rightarrow> pr_fields \<Rightarrow> CodeReviewer \<Rightarrow> bool \<Rightarrow> world \<Rightarrow> world \<times> (exn + response)" where
  "webhook_report ev f reviewer success w =
     (let gh = \<lparr>repo = pr_repo f\<rparr> in
      case list_pr_comments ev gh (pr_number f) w of
        (w1, Inl e) \<Rightarrow> (w1, Inl e)
      | (w1, Inr cs) \<Rightarrow>
          (case delete_marked ev gh cs w1 of
             (w2, Inl e) \<Rightarrow> (w2, Inl e)
           | (w2, Inr _) \<Rightarrow>
               (case final_report ev f reviewer success w2 of
                  (w3, Inl e) \<Rightarrow> (w3, Inl e)
                | (w3, Inr _) \<Rightarrow> (w3, Inr (SuccessBody success, 200)))))"

text \<open>\<open>request.headers.get(name, default)\<close>.\<close>

definition headers_get :: "string option \<Rightarrow> string \<Rightarrow> string" where
  "headers_get h dflt = (case h of None \<Rightarrow> dflt | Some v \<Rightarrow> v)"

text \<open>The handler. \<open>payload = request.json\<close> is evaluated after the signature check and
  before the event filter.\<close>

definition webhook :: "env \<Rightarrow> request \<Rightarrow> world \<Rightarrow> world \<times> (exn + response)" where
  "webhook ev req w =
     (case verify_signature (hmac_sha256 ev) (WEBHOOK_SECRET ev) (data req)
             (headers_get (X_Hub_Signature_256 req) []) of
        Inl e \<Rightarrow> (w, Inl e)
      | Inr ok \<Rightarrow>
          if \<not> ok then (w, Inr (ErrorBody ''Invalid signature'', 401))
          else
            (case json_payload req of
               Inl e \<Rightarrow> (w, Inl e)
             | Inr payload \<Rightarrow>
          if X_GitHub_Event req \<noteq> Some ''pull_request''
          then (w, Inr (MessageBody ''Ignored'', 200))
          else
            (case py_getitem payload ''action'' of
               Inl e \<Rightarrow> (w, Inl e)
             | Inr action \<Rightarrow>
                 if action \<noteq> JStr ''opened'' \<and> action \<noteq> JStr ''synchronize''
                 then (w, Inr (MessageBody ''Ignored'', 200))
                 else
                   (case webhook_fields payload of
                      Inl e \<Rightarrow> (w, Inl e)
                    | Inr f \<Rightarrow>
                        (case webhook_review ev f w of
                           (w1, Inl e) \<Rightarrow> (w1, Inl e)
                         | (w1, Inr (r, success)) \<Rightarrow> webhook_report ev f r success w1)))))"


section \<open>A concrete delivery\<close>

text \<open>
  Stand-ins for the library functions, used where a statement is evaluated on concrete
  data: \<open>demo_splitlines\<close> is \<open>str.splitlines\<close> for texts whose only line boundary is
  the line feed, \<open>demo_json_loads\<close> knows the empty JSON array and rejects every other
  text, \<open>demo_str\<close> is \<open>str()\<close> on strings, integers, booleans and \<open>None\<close>.
\<close>

definition demo_splitlines :: "string \<Rightarrow> string list" where
  "demo_splitlines s =
     (let parts = split_str newline s
      in if last parts = [] then butlast parts else parts)"

definition demo_json_loads :: "string \<Rightarrow> json option" where
  "demo_json_loads s = (if s = ''[]'' then Some (JArr []) else None)"

function str_nat :: "nat \<Rightarrow> string" where
  "str_nat n =
     (if n < 10 then [char_of (48 + n)]
      else str_nat (n div 10) @ [char_of (48 + n mod 10)])"
  by pat_completeness auto
termination
  by (relation "measure id") auto

declare str_nat.simps [simp del]

fun demo_str :: "json \<Rightarrow> string" where
  "demo_str (JStr s) = s"
| "demo_str (JNum i) = (if i < 0 then CHR ''-'' # str_nat (nat (- i)) else str_nat (nat i))"
| "demo_str (JBool b) = (if b then ''True'' else ''False'')"
| "demo_str JNull = ''None''"
| "demo_str _ = ''?''"

text \<open>GitHub answering every request with 200, and a listing that holds the first 30
  comments (the page size when the request names none).\<close>

definition answers_ok :: "effect \<Rightarrow> http_result" where
  "answers_ok rq = Response 200"

definition first_page :: "comment list \<Rightarrow> comment list" where
  "first_page cs = take 30 cs"



definition error_status_times_out :: "effect \<Rightarrow> http_result" where
  "error_status_times_out rq =
     (case rq of
        SetStatus _ _ state _ \<Rightarrow> if state = ''error'' then Transport_error Timeout else Response 200
      | _ \<Rightarrow> Response 200)"

definition ok_proc :: proc where
  "ok_proc = Inr \<lparr>returncode = 0, stdout = []\<rparr>"

text \<open>A delivery for pull request 42: the diff names one Python file and one other
  file, the linter reports nothing, the formatter and the tests pass.\<close>

definition demo_env :: env where
  "demo_env =
     \<lparr>WEBHOOK_SECRET = ''s3cret'',
      hmac_sha256 = demo_mac,
      json_loads = demo_json_loads,
      splitlines = demo_splitlines,
      py_str = demo_str,
      git_clone = ok_proc,
      git_fetch = ok_proc,
      git_checkout = ok_proc,
      git_diff = Inr \<lparr>returncode = 0, stdout = ''app.py'' @ [newline] @ ''README.md'' @ [newline]\<rparr>,
      ruff_check = Inr \<lparr>returncode = 0, stdout = ''[]''\<rparr>,
      ruff_format = ok_proc,
      pytest = ok_proc,
      mkdtemp = None,
      github = answers_ok,
      listed = first_page\<rparr>"

definition demo_payload :: json where
  "demo_payload =
     JObj [(''action'', JStr ''synchronize''),
           (''pull_request'',
              JObj [(''number'', JNum 42),
                    (''base'', JObj [(''ref'', JStr ''main'')]),
                    (''head'', JObj [(''sha'', JStr ''abc123'')])]),
           (''repository'',
              JObj [(''full_name'', JStr ''octo/demo''),
                    (''clone_url'', JStr ''https://github.com/octo/demo.git'')])]"

definition demo_fields :: pr_fields where
  "demo_fields =
     \<lparr>pr_repo = JStr ''octo/demo'', pr_number = JNum 42, pr_base_ref = JStr ''main'',
      pr_head_sha = JStr ''abc123'', pr_clone_url = JStr ''https://github.com/octo/demo.git''\<rparr>"

definition demo_request :: request where
  "demo_request =
     \<lparr>data = ''{}'',
      X_Hub_Signature_256 = Some (''sha256='' @ hexdigest (demo_mac ''s3cret'' ''{}'')),
      X_GitHub_Event = Some ''pull_request'',
      json_payload = Inr demo_payload\<rparr>"

definition demo_reviewer :: CodeReviewer where
  "demo_reviewer =
     \<lparr>repo_url = JStr ''https://github.com/octo/demo.git'', base_ref = JStr ''main'',
      head_sha = JStr ''abc123'', errors = []\<rparr>"

text \<open>A \<open>ping\<close> delivery, signed with the secret, whose body is not JSON.\<close>

definition ping_request :: request where
  "ping_request =
     \<lparr>data = ''zen'',
      X_Hub_Signature_256 = Some (''sha256='' @ hexdigest (demo_mac ''s3cret'' ''zen'')),
      X_GitHub_Event = Some ''ping'',
      json_payload = Inl BadRequest\<rparr>"

text \<open>A world in which two earlier bot comments and one human comment exist.\<close>

definition demo_world :: world where
  "demo_world =
     \<lparr>trace = [],
      comments = [\<lparr>c_id = 1, body = BOT_MARKER @ '' old review''\<rparr>,
                  \<lparr>c_id = 2, body = ''LGTM''\<rparr>,
                  \<lparr>c_id = 3, body = ''again '' @ BOT_MARKER\<rparr>]\<rparr>"


text \<open>
  What the three checks have to report, read off the outcomes of the tools: the scoped
  files of the diff, the findings that the linter's output holds (one per issue, in
  order), the findings of a formatter that exits non-zero, and the finding of a failing
  test run.
\<close>

definition scoped_files :: "env \<Rightarrow> string list" where
  "scoped_files ev =
     (case git_diff ev of
        Inl _ \<Rightarrow> []
      | Inr d \<Rightarrow> filter (\<lambda>f. suffix ''.py'' f) (splitlines ev (stdout d)))"

definition lint_reported :: "env \<Rightarrow> string list \<Rightarrow> finding list \<Rightarrow> bool" where
  "lint_reported ev files lint =
     (if files = [] then lint = []
      else (case ruff_check ev of
              Inl _ \<Rightarrow> False
            | Inr p \<Rightarrow>
                if stdout p = [] then lint = []
                else (case json_loads ev (stdout p) of
                        None \<Rightarrow> False
                      | Some issues \<Rightarrow>
                          (case py_iter issues of
                             Inl _ \<Rightarrow> False
                           | Inr items \<Rightarrow> map issue_finding items = map Inr lint))))"

definition format_reported :: "env \<Rightarrow> string list \<Rightarrow> finding list" where
  "format_reported ev files =
     (case ruff_format ev of
        Inl _ \<Rightarrow> []
      | Inr p \<Rightarrow> if files \<noteq> [] \<and> returncode p \<noteq> 0 then map format_finding files else [])"

definition test_reported :: "env \<Rightarrow> finding list" where
  "test_reported ev =
     (case pytest ev of
        Inl _ \<Rightarrow> []
      | Inr p \<Rightarrow> if returncode p \<noteq> 0 then [test_finding] else [])"


text \<open>
  The format check in the words of the specification, for comparison with
  \<open>run_format_check\<close>: exactly one finding per offending file.
\<close>

definition spec_format_findings :: "string list \<Rightarrow> finding list" where
  "spec_format_findings offending = map format_finding offending"

section \<open>Properties of the signature check\<close>

lemma split_str_no_sep: "sep \<notin> set s \<Longrightarrow> split_str sep s = [s]"
  by (induction s) auto

lemma split_str_append: "sep \<notin> set l \<Longrightarrow> split_str sep (l @ sep # d) = l # split_str sep d"
  by (induction l) auto

lemma split_str_two: "\<exists>x xs. split_str sep d = x # xs"
  by (induction d) (auto split: list.splits)

lemma split_str_sep_in: "sep \<in> set d \<Longrightarrow> \<exists>x y zs. split_str sep d = x # y # zs"
proof (induction d)
  case Nil
  then show ?case by simp
next
  case (Cons c cs)
  show ?case
  proof (cases "c = sep")
    case True
    obtain x xs where "split_str sep cs = x # xs" using split_str_two by blast
    with True show ?thesis by simp
  next
    case False
    with Cons obtain x y zs where "split_str sep cs = x # y # zs" by auto
    with False show ?thesis by simp
  qed
qed

lemma hexchar_in: "hexchar n \<in> set ''0123456789abcdef''"
  unfolding hexchar_def by (rule nth_mem) simp

lemma hexdigest_set: "set (hexdigest bs) \<subseteq> set ''0123456789abcdef''"
  unfolding hexdigest_def hex_byte_def using hexchar_in by auto

lemma hexdigest_ascii: "is_ascii (hexdigest bs)"
  using hexdigest_set [of bs] unfolding is_ascii_def list_all_iff by auto

lemma hexdigest_no_eq: "CHR ''='' \<notin> set (hexdigest bs)"
  using hexdigest_set [of bs] by auto

lemma verify_two_parts:
  assumes "S \<noteq> []" "CHR ''='' \<notin> set L" "CHR ''='' \<notin> set d"
  shows "verify_signature H S P (L @ ''='' @ d) = compare_digest (hexdigest (H (encode S) P)) d"
  using assms by (simp add: verify_signature_def split_str_append split_str_no_sep)

lemma verify_more_parts:
  assumes "S \<noteq> []" "CHR ''='' \<notin> set L" "CHR ''='' \<in> set d"
  shows "verify_signature H S P (L @ ''='' @ d) = Inl ValueError"
proof -
  from split_str_sep_in [OF assms(3)] obtain x y zs
    where "split_str CHR ''='' d = x # y # zs" by blast
  with assms(1,2) show ?thesis
    by (simp add: verify_signature_def split_str_append)
qed

lemma verify_one_part:
  assumes "S \<noteq> []" "h \<noteq> []" "CHR ''='' \<notin> set h"
  shows "verify_signature H S P h = Inl ValueError"
  using assms by (simp add: verify_signature_def split_str_no_sep)


text \<open>
  Claim C2. For every payload and every secret, the header \<open>sha256=\<close> followed by the
  hexadecimal HMAC of the payload verifies true. With a configured (non-empty) secret, a
  header \<open>sha256=d\<close> whose digest part \<open>d\<close> is an ASCII string without \<open>=\<close> (every
  string of hexadecimal digits is one) and differs from the correct digest verifies
  false. With no secret configured, every payload and every header verify true.
\<close>

theorem verify_signature_hmac:
  "verify_signature H S P (''sha256='' @ hexdigest (H (encode S) P)) = Inr True \<and>
   (S \<noteq> [] \<and> CHR ''='' \<notin> set d \<and> is_ascii d \<and> d \<noteq> hexdigest (H (encode S) P) \<longrightarrow>
      verify_signature H S P (''sha256='' @ d) = Inr False) \<and>
   verify_signature H [] P h = Inr True"
proof (intro conjI impI)
  show "verify_signature H S P (''sha256='' @ hexdigest (H (encode S) P)) = Inr True"
  proof (cases "S = []")
    case True
    then show ?thesis by (simp add: verify_signature_def)
  next
    case False
    have "verify_signature H S P (''sha256'' @ ''='' @ hexdigest (H (encode S) P)) =
          compare_digest (hexdigest (H (encode S) P)) (hexdigest (H (encode S) P))"
      by (rule verify_two_parts) (use False hexdigest_no_eq in auto)
    then show ?thesis by (simp add: compare_digest_def hexdigest_ascii)
  qed
next
  assume a: "S \<noteq> [] \<and> CHR ''='' \<notin> set d \<and> is_ascii d \<and> d \<noteq> hexdigest (H (encode S) P)"
  then have "verify_signature H S P (''sha256'' @ ''='' @ d) =
             compare_digest (hexdigest (H (encode S) P)) d"
    by (intro verify_two_parts) auto
  with a show "verify_signature H S P (''sha256='' @ d) = Inr False"
    by (auto simp add: compare_digest_def hexdigest_ascii)
next
  show "verify_signature H [] P h = Inr True"
    by (simp add: verify_signature_def)
qed

theorem verify_signature_hmac_witness:
  "verify_signature demo_mac ''s'' ''p'' (''sha256='' @ hexdigest (demo_mac (encode ''s'') ''p'')) = Inr True \<and>
   ''s'' \<noteq> [] \<and> CHR ''='' \<notin> set ''7371'' \<and> is_ascii ''7371'' \<and>
   ''7371'' \<noteq> hexdigest (demo_mac (encode ''s'') ''p'') \<and>
   verify_signature demo_mac ''s'' ''p'' (''sha256='' @ ''7371'') = Inr False \<and>
   verify_signature demo_mac [] ''p'' ''anything'' = Inr True"
  using verify_signature_hmac [of demo_mac "''s''" "''p''" "''7371''" "''anything''"]
  by (simp add: is_ascii_def hexdigest_def demo_mac_def hex_byte_def hexchar_def encode_def)

text \<open>
  Claim C10, amended. With a configured secret and a label \<open>L\<close> that does not contain
  \<open>=\<close>, the header \<open>L=d\<close> verifies true exactly when \<open>d\<close> is the hexadecimal
  HMAC-SHA256 digest of the payload, whatever the label says (\<open>sha1\<close> included).
\<close>

theorem verify_signature_label_ignored:
  assumes "S \<noteq> []" and "CHR ''='' \<notin> set L"
  shows "(verify_signature H S P (L @ ''='' @ d) = Inr True) = (d = hexdigest (H (encode S) P))"
proof (cases "CHR ''='' \<in> set d")
  case True
  then have "verify_signature H S P (L @ ''='' @ d) = Inl ValueError"
    using assms by (intro verify_more_parts)
  moreover from True have "d \<noteq> hexdigest (H (encode S) P)"
    using hexdigest_no_eq [of "H (encode S) P"] by auto
  ultimately show ?thesis by simp
next
  case False
  then have "verify_signature H S P (L @ ''='' @ d) = compare_digest (hexdigest (H (encode S) P)) d"
    using assms by (intro verify_two_parts)
  then show ?thesis
    using hexdigest_ascii [of "H (encode S) P"]
    by (auto simp add: compare_digest_def)
qed

theorem verify_signature_label_ignored_witness:
  "''s'' \<noteq> [] \<and> CHR ''='' \<notin> set ''sha1'' \<and>
   verify_signature demo_mac ''s'' ''p'' (''sha1'' @ ''='' @ ''7370'') = Inr True \<and>
   ''7370'' = hexdigest (demo_mac (encode ''s'') ''p'')"
  using verify_signature_label_ignored [of "''s''" "''sha1''" demo_mac "''p''" "''7370''"]
  by (simp add: hexdigest_def demo_mac_def hex_byte_def hexchar_def encode_def)

text \<open>
  Claim C10 as stated fails for a label that contains \<open>=\<close>: the header
  \<open>a=b=<correct digest>\<close> splits into three parts and the tuple assignment raises
  \<open>ValueError\<close>, so the header does not verify true although its digest is the
  correct one.
\<close>

theorem verify_signature_label_counterexample:
  "verify_signature demo_mac ''s'' ''p'' (''a=b'' @ ''='' @ hexdigest (demo_mac (encode ''s'') ''p''))
     = Inl ValueError"
  by (simp add: verify_signature_def hexdigest_def demo_mac_def hex_byte_def hexchar_def
      encode_def)

text \<open>
  Claim C7 at the header \<open>sha256\<close> (no \<open>=\<close>), with a configured secret:
  \<open>verify_signature\<close> raises \<open>ValueError\<close> where the claim has it return false, and the
  handler ends with that exception where the claim has it answer 401. No external call
  is made: the world is unchanged.
\<close>

theorem verify_signature_malformed_raises:
  "verify_signature (hmac_sha256 demo_env) (WEBHOOK_SECRET demo_env) (data demo_request) ''sha256''
     = Inl ValueError \<and>
   webhook demo_env (demo_request\<lparr>X_Hub_Signature_256 := Some ''sha256''\<rparr>) demo_world
     = (demo_world, Inl ValueError)"
  by (simp add: verify_signature_def webhook_def demo_env_def demo_request_def headers_get_def)

section \<open>Evaluation on concrete data\<close>

lemmas run_defs = run_def subprocess_run_def emit_def

lemmas handler_defs =
  webhook_def webhook_review_def webhook_report_def webhook_fields_def try_body_def
  clone_repo_def run_all_def changed_python_files_def run_ruff_def run_format_check_def
  run_pytest_def cleanup_def CodeReviewer_init_def set_status_def list_pr_comments_def
  delete_comment_def post_pr_comment_def headers_get_def raise_for_status_def
  requests_call_def success_status_def final_report_def

lemmas demo_defs =
  demo_env_def demo_request_def demo_payload_def demo_world_def demo_reviewer_def
  demo_fields_def ok_proc_def demo_splitlines_def demo_json_loads_def newline_def
  demo_mac_def answers_ok_def first_page_def

lemmas verify_defs =
  verify_signature_def hexdigest_def hex_byte_def hexchar_def compare_digest_def
  is_ascii_def encode_def

lemma demo_verified:
  "verify_signature (hmac_sha256 demo_env) (WEBHOOK_SECRET demo_env) (data demo_request)
     (headers_get (X_Hub_Signature_256 demo_request) []) = Inr True"
  by (simp add: verify_defs demo_defs headers_get_def)

section \<open>The analysis runner\<close>

text \<open>
  Claim C6, amended. For a non-empty scoped file list and a formatter run that
  completes: if the formatter exits non-zero, the check appends exactly one finding for
  every scoped file, in order, each with that file, line 1, column 1, the code
  \<open>FORMAT\<close> and a fixed message; if it exits zero, it appends nothing. The formatter
  is invoked once, on the scoped files, and its output is not read. A finding of this
  handler has no severity.
\<close>

theorem run_format_check_findings:
  assumes "files \<noteq> []" and "ruff_format ev = Inr p"
  shows "run_format_check ev self files w =
           ((if returncode p \<noteq> 0
             then self\<lparr>errors := errors self @ map format_finding files\<rparr> else self),
            emit (Run (map JStr ([''ruff'', ''format'', ''--check''] @ files))) w, Inr ()) \<and>
         file_name (format_finding f) = JStr f \<and> line (format_finding f) = JNum 1 \<and>
         column (format_finding f) = JNum 1 \<and> code (format_finding f) = JStr ''FORMAT'' \<and>
         message (format_finding f) = JStr ''File is not properly formatted''"
  using assms by (simp add: run_format_check_def subprocess_run_def format_finding_def)

theorem run_format_check_findings_witness:
  "[''a.py'', ''b.py''] \<noteq> [] \<and>
   ruff_format (demo_env\<lparr>ruff_format := Inr \<lparr>returncode = 1, stdout = ''Would reformat: b.py''\<rparr>\<rparr>)
     = Inr \<lparr>returncode = 1, stdout = ''Would reformat: b.py''\<rparr> \<and>
   run_format_check
     (demo_env\<lparr>ruff_format := Inr \<lparr>returncode = 1, stdout = ''Would reformat: b.py''\<rparr>\<rparr>)
     demo_reviewer [''a.py'', ''b.py''] demo_world =
     (demo_reviewer\<lparr>errors := [format_finding ''a.py'', format_finding ''b.py'']\<rparr>,
      emit (Run [JStr ''ruff'', JStr ''format'', JStr ''--check'', JStr ''a.py'', JStr ''b.py''])
        demo_world,
      Inr ()) \<and>
   line (format_finding ''b.py'') = JNum 1 \<and> column (format_finding ''b.py'') = JNum 1 \<and>
   code (format_finding ''b.py'') = JStr ''FORMAT''"
  using run_format_check_findings
    [of "[''a.py'', ''b.py'']"
        "demo_env\<lparr>ruff_format := Inr \<lparr>returncode = 1, stdout = ''Would reformat: b.py''\<rparr>\<rparr>"
        "\<lparr>returncode = 1, stdout = ''Would reformat: b.py''\<rparr>" demo_reviewer demo_world "''b.py''"]
  by (simp add: demo_reviewer_def)

text \<open>
  Claim C6 as stated fails where the formatter exits non-zero because of one file only:
  with the scoped files \<open>a.py\<close> and \<open>b.py\<close> and a formatter that would reformat
  \<open>b.py\<close> alone, the check reports both files, not the one finding for the offending
  file that the claim gives.
\<close>

theorem run_format_check_counterexample:
  "errors (fst (run_format_check
     (demo_env\<lparr>ruff_format := Inr \<lparr>returncode = 1, stdout = ''Would reformat: b.py''\<rparr>\<rparr>)
     demo_reviewer [''a.py'', ''b.py''] demo_world))
     = [format_finding ''a.py'', format_finding ''b.py''] \<and>
   errors (fst (run_format_check
     (demo_env\<lparr>ruff_format := Inr \<lparr>returncode = 1, stdout = ''Would reformat: b.py''\<rparr>\<rparr>)
     demo_reviewer [''a.py'', ''b.py''] demo_world))
     \<noteq> spec_format_findings [''b.py'']"
  by (simp add: run_format_check_def subprocess_run_def demo_reviewer_def
      spec_format_findings_def)

text \<open>
  Claim C4, amended. When the scoped file list is empty, \<open>run_all\<close> on a fresh reviewer
  starts neither the linter nor the formatter; the test run is still started, and it is
  the only external process after the diff. The result is success with no findings when
  the tests exit zero, and otherwise failure with the single \<open>TEST\<close> finding.
\<close>

theorem run_all_empty_scope:
  assumes "changed_python_files ev self w = (w1, Inr [])"
    and "pytest ev = Inr p" and "errors self = []"
  shows "run_all ev self w =
           (self\<lparr>errors := (if returncode p = 0 then [] else [test_finding])\<rparr>,
            emit (Run [JStr ''pytest'', JStr ''-q'']) w1,
            Inr (returncode p = 0))"
  using assms
  by (simp add: run_all_def run_ruff_def run_format_check_def run_pytest_def subprocess_run_def)

theorem run_all_empty_scope_witness:
  "changed_python_files
     (demo_env\<lparr>git_diff := Inr \<lparr>returncode = 0, stdout = ''README.md'' @ [newline]\<rparr>\<rparr>)
     demo_reviewer demo_world
     = (emit (Run [JStr ''git'', JStr ''diff'', JStr ''--name-only'', JStr ''origin/main'',
                   JStr ''abc123'']) demo_world, Inr []) \<and>
   pytest (demo_env\<lparr>git_diff := Inr \<lparr>returncode = 0, stdout = ''README.md'' @ [newline]\<rparr>\<rparr>)
     = Inr \<lparr>returncode = 0, stdout = []\<rparr> \<and>
   errors demo_reviewer = [] \<and>
   run_all (demo_env\<lparr>git_diff := Inr \<lparr>returncode = 0, stdout = ''README.md'' @ [newline]\<rparr>\<rparr>)
     demo_reviewer demo_world
     = (demo_reviewer\<lparr>errors := []\<rparr>,
        emit (Run [JStr ''pytest'', JStr ''-q''])
          (emit (Run [JStr ''git'', JStr ''diff'', JStr ''--name-only'', JStr ''origin/main'',
                      JStr ''abc123'']) demo_world),
        Inr True)"
proof -
  let ?ev = "demo_env\<lparr>git_diff := Inr \<lparr>returncode = 0, stdout = ''README.md'' @ [newline]\<rparr>\<rparr>"
  let ?w1 = "emit (Run [JStr ''git'', JStr ''diff'', JStr ''--name-only'', JStr ''origin/main'',
                   JStr ''abc123'']) demo_world"
  have a: "changed_python_files ?ev demo_reviewer demo_world = (?w1, Inr [])"
    by (simp add: changed_python_files_def run_defs demo_env_def demo_reviewer_def
        demo_splitlines_def newline_def suffix_to_prefix)
  have b: "pytest ?ev = Inr \<lparr>returncode = 0, stdout = []\<rparr>"
    by (simp add: demo_env_def ok_proc_def)
  have c: "errors demo_reviewer = []"
    by (simp add: demo_reviewer_def)
  from run_all_empty_scope [OF a b c] a b c show ?thesis by simp
qed

text \<open>
  Claim C4 as stated fails: with a diff that names no Python file and a failing test
  run, the scoped list is empty, yet \<open>pytest\<close> is started and \<open>run_all\<close> returns
  failure with one finding.
\<close>

theorem run_all_empty_scope_counterexample:
  "snd (changed_python_files
     (demo_env\<lparr>git_diff := Inr \<lparr>returncode = 0, stdout = ''README.md'' @ [newline]\<rparr>,
               pytest := Inr \<lparr>returncode = 1, stdout = ''1 failed''\<rparr>\<rparr>)
     demo_reviewer demo_world) = Inr [] \<and>
   run_all
     (demo_env\<lparr>git_diff := Inr \<lparr>returncode = 0, stdout = ''README.md'' @ [newline]\<rparr>,
               pytest := Inr \<lparr>returncode = 1, stdout = ''1 failed''\<rparr>\<rparr>)
     demo_reviewer demo_world
     = (demo_reviewer\<lparr>errors := [test_finding]\<rparr>,
        demo_world\<lparr>trace :=
          [Run [JStr ''git'', JStr ''diff'', JStr ''--name-only'', JStr ''origin/main'',
                JStr ''abc123''],
           Run [JStr ''pytest'', JStr ''-q'']]\<rparr>,
        Inr False)"
  by (simp add: run_all_def changed_python_files_def run_ruff_def run_format_check_def
      run_pytest_def run_defs demo_env_def demo_reviewer_def demo_world_def
      demo_splitlines_def newline_def suffix_to_prefix)

text \<open>
  Claim C5 at a linter output that is not JSON (\<open>[{\<close>), for the scoped file
  \<open>app.py\<close>: \<open>run_ruff\<close> raises \<open>JSONDecodeError\<close> where the claim has it contribute
  no findings, and the handler sets the status \<open>error\<close>, removes the workspace and ends
  with that exception where the claim has the review go on.
\<close>

theorem run_ruff_malformed_output:
  "run_ruff (demo_env\<lparr>ruff_check := Inr \<lparr>returncode = 1, stdout = ''[{''\<rparr>\<rparr>)
     demo_reviewer [''app.py''] demo_world
     = (demo_reviewer,
        emit (Run [JStr ''ruff'', JStr ''check'', JStr ''--output-format=json'', JStr ''app.py''])
          demo_world,
        Inl JSONDecodeError) \<and>
   webhook (demo_env\<lparr>ruff_check := Inr \<lparr>returncode = 1, stdout = ''[{''\<rparr>\<rparr>)
     demo_request demo_world
     = (demo_world\<lparr>trace :=
          [SetStatus (JStr ''octo/demo'') (JStr ''abc123'') ''pending''
             ''Running code quality checks'',
           Mkdtemp,
           Run [JStr ''git'', JStr ''clone'', JStr ''https://github.com/octo/demo.git'', JStr ''.''],
           Run [JStr ''git'', JStr ''fetch'', JStr ''origin'', JStr ''main''],
           Run [JStr ''git'', JStr ''checkout'', JStr ''abc123''],
           Run [JStr ''git'', JStr ''diff'', JStr ''--name-only'', JStr ''origin/main'',
                JStr ''abc123''],
           Run [JStr ''ruff'', JStr ''check'', JStr ''--output-format=json'', JStr ''app.py''],
           SetStatus (JStr ''octo/demo'') (JStr ''abc123'') ''error'' ''CI execution failed'',
           Rmtree]\<rparr>,
        Inl JSONDecodeError)"
proof (intro conjI)
  show "run_ruff (demo_env\<lparr>ruff_check := Inr \<lparr>returncode = 1, stdout = ''[{''\<rparr>\<rparr>)
     demo_reviewer [''app.py''] demo_world
     = (demo_reviewer,
        emit (Run [JStr ''ruff'', JStr ''check'', JStr ''--output-format=json'', JStr ''app.py''])
          demo_world,
        Inl JSONDecodeError)"
    by (simp add: run_ruff_def subprocess_run_def demo_env_def demo_json_loads_def)
next
  show "webhook (demo_env\<lparr>ruff_check := Inr \<lparr>returncode = 1, stdout = ''[{''\<rparr>\<rparr>)
     demo_request demo_world = (demo_world\<lparr>trace :=
          [SetStatus (JStr ''octo/demo'') (JStr ''abc123'') ''pending''
             ''Running code quality checks'',
           Mkdtemp,
           Run [JStr ''git'', JStr ''clone'', JStr ''https://github.com/octo/demo.git'', JStr ''.''],
           Run [JStr ''git'', JStr ''fetch'', JStr ''origin'', JStr ''main''],
           Run [JStr ''git'', JStr ''checkout'', JStr ''abc123''],
           Run [JStr ''git'', JStr ''diff'', JStr ''--name-only'', JStr ''origin/main'',
                JStr ''abc123''],
           Run [JStr ''ruff'', JStr ''check'', JStr ''--output-format=json'', JStr ''app.py''],
           SetStatus (JStr ''octo/demo'') (JStr ''abc123'') ''error'' ''CI execution failed'',
           Rmtree]\<rparr>,
        Inl JSONDecodeError)"
    by (simp add: handler_defs run_defs demo_defs verify_defs suffix_to_prefix)
qed

section \<open>The handler\<close>

subsection \<open>Only deletions and posts touch the comments\<close>









lemma run_all_flag:
  assumes "run_all ev self w = (r, w', Inr s)"
  shows "s = (errors r = [])"
  using assms
  by (auto simp add: run_all_def split: prod.splits sum.splits)


lemma try_body_flag:
  "try_body ev self w = (r, w', Inr s) \<Longrightarrow> s = (errors r = [])"
  by (auto simp add: try_body_def split: prod.splits sum.splits dest: run_all_flag)





lemma webhook_review_try_body:
  assumes "webhook_review ev f w = (w', Inr (r, s))"
  shows "\<exists>wa wb. try_body ev \<lparr>repo_url = pr_clone_url f, base_ref = pr_base_ref f,
                              head_sha = pr_head_sha f, errors = []\<rparr> wa = (r, wb, Inr s)"
  using assms
  by (auto simp add: webhook_review_def CodeReviewer_init_def Let_def
      split: prod.splits sum.splits option.splits)

lemma webhook_review_flag:
  assumes "webhook_review ev f w = (w', Inr (r, s))"
  shows "s = (errors r = [])"
  using webhook_review_try_body [OF assms] try_body_flag by blast

lemma webhook_review_run_all:
  assumes "webhook_review ev f w = (w', Inr (r, s))"
  shows "\<exists>wa wb. run_all ev \<lparr>repo_url = pr_clone_url f, base_ref = pr_base_ref f,
                            head_sha = pr_head_sha f, errors = []\<rparr> wa = (r, wb, Inr s)"
proof -
  from webhook_review_try_body [OF assms] obtain wa wb where
    "try_body ev \<lparr>repo_url = pr_clone_url f, base_ref = pr_base_ref f,
                  head_sha = pr_head_sha f, errors = []\<rparr> wa = (r, wb, Inr s)" by blast
  then show ?thesis
    by (auto simp add: try_body_def split: prod.splits sum.splits)
qed

subsection \<open>The reporting phase when GitHub answers every request\<close>
















lemma demo_event: "X_GitHub_Event demo_request = Some ''pull_request''"
  by (simp add: demo_request_def)

lemma demo_json: "json_payload demo_request = Inr demo_payload"
  by (simp add: demo_request_def)

lemma demo_action: "py_getitem demo_payload ''action'' = Inr (JStr ''synchronize'')"
  by (simp add: demo_payload_def)

lemma demo_webhook_fields: "webhook_fields demo_payload = Inr demo_fields"
  by (simp add: webhook_fields_def demo_payload_def demo_fields_def)




text \<open>
  Claim C3, amended. For a verified \<open>pull_request\<close> delivery with action \<open>opened\<close> or
  \<open>synchronize\<close> and a complete payload, whose pending status request returns and whose
  workspace is created: if a step of the clone, fetch or checkout, or the analysis,
  raises an exception \<open>e\<close>, the handler requests the status \<open>error\<close> with the
  description \<open>CI execution failed\<close> for the head commit, then removes the workspace,
  makes no further call, and ends with an exception: with \<open>e\<close> itself when the status
  request is answered, and with the exception of the status request when that request
  raises.
\<close>

theorem webhook_failure_reported:
  assumes "verify_signature (hmac_sha256 ev) (WEBHOOK_SECRET ev) (data req)
             (headers_get (X_Hub_Signature_256 req) []) = Inr True"
    and "json_payload req = Inr payload"
    and "X_GitHub_Event req = Some ''pull_request''"
    and "py_getitem payload ''action'' = Inr action"
    and "action = JStr ''opened'' \<or> action = JStr ''synchronize''"
    and "webhook_fields payload = Inr f"
    and "set_status ev \<lparr>repo = pr_repo f\<rparr> (pr_head_sha f) ''pending''
           ''Running code quality checks'' w = (w1, Inr ())"
    and "CodeReviewer_init ev (pr_clone_url f) (pr_base_ref f) (pr_head_sha f) w1
           = (w2, Inr reviewer)"
    and "try_body ev reviewer w2 = (r, w3, Inl e)"
  shows "webhook ev req w =
           (w3\<lparr>trace := trace w3 @
                  [SetStatus (pr_repo f) (pr_head_sha f) ''error'' ''CI execution failed'',
                   Rmtree]\<rparr>,
            Inl (case github ev (SetStatus (pr_repo f) (pr_head_sha f) ''error''
                                   ''CI execution failed'') of
                   Transport_error e' \<Rightarrow> e'
                 | Response _ \<Rightarrow> e))"
  using assms
  by (auto simp add: webhook_def webhook_review_def Let_def set_status_def [of _ _ _ "''error''"]
      requests_call_def cleanup_def emit_def split: http_result.splits)

theorem webhook_failure_reported_witness:
  "verify_signature (hmac_sha256 (demo_env\<lparr>git_fetch := Inr \<lparr>returncode = 128, stdout = []\<rparr>\<rparr>))
     (WEBHOOK_SECRET (demo_env\<lparr>git_fetch := Inr \<lparr>returncode = 128, stdout = []\<rparr>\<rparr>))
     (data demo_request) (headers_get (X_Hub_Signature_256 demo_request) []) = Inr True \<and>
   json_payload demo_request = Inr demo_payload \<and>
   X_GitHub_Event demo_request = Some ''pull_request'' \<and>
   py_getitem demo_payload ''action'' = Inr (JStr ''synchronize'') \<and>
   webhook_fields demo_payload = Inr demo_fields \<and>
   set_status (demo_env\<lparr>git_fetch := Inr \<lparr>returncode = 128, stdout = []\<rparr>\<rparr>)
     \<lparr>repo = pr_repo demo_fields\<rparr> (pr_head_sha demo_fields) ''pending''
     ''Running code quality checks'' demo_world
     = (demo_world\<lparr>trace :=
          [SetStatus (JStr ''octo/demo'') (JStr ''abc123'') ''pending''
             ''Running code quality checks'']\<rparr>, Inr ()) \<and>
   CodeReviewer_init (demo_env\<lparr>git_fetch := Inr \<lparr>returncode = 128, stdout = []\<rparr>\<rparr>)
     (pr_clone_url demo_fields) (pr_base_ref demo_fields) (pr_head_sha demo_fields)
     (demo_world\<lparr>trace :=
          [SetStatus (JStr ''octo/demo'') (JStr ''abc123'') ''pending''
             ''Running code quality checks'']\<rparr>)
     = (demo_world\<lparr>trace :=
          [SetStatus (JStr ''octo/demo'') (JStr ''abc123'') ''pending''
             ''Running code quality checks'',
           Mkdtemp]\<rparr>, Inr demo_reviewer) \<and>
   try_body (demo_env\<lparr>git_fetch := Inr \<lparr>returncode = 128, stdout = []\<rparr>\<rparr>) demo_reviewer
     (demo_world\<lparr>trace :=
          [SetStatus (JStr ''octo/demo'') (JStr ''abc123'') ''pending''
             ''Running code quality checks'',
           Mkdtemp]\<rparr>)
     = (demo_reviewer,
        demo_world\<lparr>trace :=
          [SetStatus (JStr ''octo/demo'') (JStr ''abc123'') ''pending''
             ''Running code quality checks'',
           Mkdtemp,
           Run [JStr ''git'', JStr ''clone'', JStr ''https://github.com/octo/demo.git'', JStr ''.''],
           Run [JStr ''git'', JStr ''fetch'', JStr ''origin'', JStr ''main'']]\<rparr>,
        Inl CalledProcessError) \<and>
   webhook (demo_env\<lparr>git_fetch := Inr \<lparr>returncode = 128, stdout = []\<rparr>\<rparr>) demo_request demo_world
     = (demo_world\<lparr>trace :=
          [SetStatus (JStr ''octo/demo'') (JStr ''abc123'') ''pending''
             ''Running code quality checks'',
           Mkdtemp,
           Run [JStr ''git'', JStr ''clone'', JStr ''https://github.com/octo/demo.git'', JStr ''.''],
           Run [JStr ''git'', JStr ''fetch'', JStr ''origin'', JStr ''main''],
           SetStatus (JStr ''octo/demo'') (JStr ''abc123'') ''error'' ''CI execution failed'',
           Rmtree]\<rparr>,
        Inl CalledProcessError)"
proof -
  let ?ev = "demo_env\<lparr>git_fetch := Inr \<lparr>returncode = 128, stdout = []\<rparr>\<rparr>"
  let ?w1 = "demo_world\<lparr>trace :=
          [SetStatus (JStr ''octo/demo'') (JStr ''abc123'') ''pending''
             ''Running code quality checks'']\<rparr>"
  let ?w2 = "demo_world\<lparr>trace :=
          [SetStatus (JStr ''octo/demo'') (JStr ''abc123'') ''pending''
             ''Running code quality checks'',
           Mkdtemp]\<rparr>"
  let ?w3 = "demo_world\<lparr>trace :=
          [SetStatus (JStr ''octo/demo'') (JStr ''abc123'') ''pending''
             ''Running code quality checks'',
           Mkdtemp,
           Run [JStr ''git'', JStr ''clone'', JStr ''https://github.com/octo/demo.git'', JStr ''.''],
           Run [JStr ''git'', JStr ''fetch'', JStr ''origin'', JStr ''main'']]\<rparr>"
  have v: "verify_signature (hmac_sha256 ?ev) (WEBHOOK_SECRET ?ev) (data demo_request)
             (headers_get (X_Hub_Signature_256 demo_request) []) = Inr True"
    using demo_verified by (simp add: demo_env_def)
  have a': "JStr ''synchronize'' = JStr ''opened'' \<or> JStr ''synchronize'' = JStr ''synchronize''"
    by simp
  have p: "set_status ?ev \<lparr>repo = pr_repo demo_fields\<rparr> (pr_head_sha demo_fields) ''pending''
     ''Running code quality checks'' demo_world = (?w1, Inr ())"
    by (simp add: set_status_def requests_call_def emit_def demo_defs)
  have i: "CodeReviewer_init ?ev (pr_clone_url demo_fields) (pr_base_ref demo_fields)
       (pr_head_sha demo_fields) ?w1 = (?w2, Inr demo_reviewer)"
    by (simp add: CodeReviewer_init_def emit_def demo_defs)
  have t: "try_body ?ev demo_reviewer ?w2 = (demo_reviewer, ?w3, Inl CalledProcessError)"
    by (simp add: try_body_def clone_repo_def run_defs demo_defs)
  have g: "github ?ev (SetStatus (pr_repo demo_fields) (pr_head_sha demo_fields) ''error''
             ''CI execution failed'') = Response 200"
    by (simp add: demo_defs)
  from webhook_failure_reported
         [OF v demo_json demo_event demo_action a' demo_webhook_fields p i t]
       v demo_json demo_event demo_action demo_webhook_fields p i t g
  show ?thesis by (simp add: demo_fields_def)
qed

text \<open>
  Claim C3 as stated fails where the status request of the \<open>except\<close> clause raises: the
  fetch fails with \<open>CalledProcessError\<close>, the request for the status \<open>error\<close> times
  out, and the handler ends with \<open>Timeout\<close>, not with the failure of the fetch (the
  status request is made and the workspace is removed all the same).
\<close>

theorem webhook_failure_reported_counterexample:
  "snd (try_body (demo_env\<lparr>git_fetch := Inr \<lparr>returncode = 128, stdout = []\<rparr>,
                           github := error_status_times_out\<rparr>) demo_reviewer
          (demo_world\<lparr>trace :=
             [SetStatus (JStr ''octo/demo'') (JStr ''abc123'') ''pending''
                ''Running code quality checks'',
              Mkdtemp]\<rparr>))
     = (demo_world\<lparr>trace :=
          [SetStatus (JStr ''octo/demo'') (JStr ''abc123'') ''pending''
             ''Running code quality checks'',
           Mkdtemp,
           Run [JStr ''git'', JStr ''clone'', JStr ''https://github.com/octo/demo.git'', JStr ''.''],
           Run [JStr ''git'', JStr ''fetch'', JStr ''origin'', JStr ''main'']]\<rparr>,
        Inl CalledProcessError) \<and>
   webhook (demo_env\<lparr>git_fetch := Inr \<lparr>returncode = 128, stdout = []\<rparr>,
                     github := error_status_times_out\<rparr>) demo_request demo_world
     = (demo_world\<lparr>trace :=
          [SetStatus (JStr ''octo/demo'') (JStr ''abc123'') ''pending''
             ''Running code quality checks'',
           Mkdtemp,
           Run [JStr ''git'', JStr ''clone'', JStr ''https://github.com/octo/demo.git'', JStr ''.''],
           Run [JStr ''git'', JStr ''fetch'', JStr ''origin'', JStr ''main''],
           SetStatus (JStr ''octo/demo'') (JStr ''abc123'') ''error'' ''CI execution failed'',
           Rmtree]\<rparr>,
        Inl Timeout)"
  by (simp add: handler_defs run_defs demo_defs verify_defs error_status_times_out_def)

text \<open>
  Claim C8, amended. For a request whose signature verifies and whose body
  \<open>request.json\<close> parses: if the event is \<open>pull_request\<close> and the action of the payload
  is neither \<open>opened\<close> nor \<open>synchronize\<close>, or if the event is not \<open>pull_request\<close>, the
  handler answers 200 with the message \<open>Ignored\<close> and the world is unchanged: no status
  is set, no workspace is created, no process is started.
\<close>

theorem webhook_ignored:
  assumes "verify_signature (hmac_sha256 ev) (WEBHOOK_SECRET ev) (data req)
             (headers_get (X_Hub_Signature_256 req) []) = Inr True"
    and "json_payload req = Inr payload"
  shows "(X_GitHub_Event req = Some ''pull_request'' \<and>
          py_getitem payload ''action'' = Inr action \<and>
          action \<noteq> JStr ''opened'' \<and> action \<noteq> JStr ''synchronize'' \<longrightarrow>
            webhook ev req w = (w, Inr (MessageBody ''Ignored'', 200))) \<and>
         (X_GitHub_Event req \<noteq> Some ''pull_request'' \<longrightarrow>
            webhook ev req w = (w, Inr (MessageBody ''Ignored'', 200)))"
  using assms by (simp add: webhook_def)

theorem webhook_ignored_witness:
  "verify_signature (hmac_sha256 demo_env) (WEBHOOK_SECRET demo_env) (data demo_request)
     (headers_get (X_Hub_Signature_256 demo_request) []) = Inr True \<and>
   json_payload (demo_request\<lparr>json_payload := Inr (JObj [(''action'', JStr ''closed'')])\<rparr>)
     = Inr (JObj [(''action'', JStr ''closed'')]) \<and>
   py_getitem (JObj [(''action'', JStr ''closed'')]) ''action'' = Inr (JStr ''closed'') \<and>
   JStr ''closed'' \<noteq> JStr ''opened'' \<and> JStr ''closed'' \<noteq> JStr ''synchronize'' \<and>
   webhook demo_env (demo_request\<lparr>json_payload := Inr (JObj [(''action'', JStr ''closed'')])\<rparr>)
     demo_world = (demo_world, Inr (MessageBody ''Ignored'', 200)) \<and>
   json_payload (demo_request\<lparr>X_GitHub_Event := Some ''push''\<rparr>) = Inr demo_payload \<and>
   Some ''push'' \<noteq> Some ''pull_request'' \<and>
   webhook demo_env (demo_request\<lparr>X_GitHub_Event := Some ''push''\<rparr>) demo_world
     = (demo_world, Inr (MessageBody ''Ignored'', 200))"
proof -
  let ?closed = "demo_request\<lparr>json_payload := Inr (JObj [(''action'', JStr ''closed'')])\<rparr>"
  let ?push = "demo_request\<lparr>X_GitHub_Event := Some ''push''\<rparr>"
  have v1: "verify_signature (hmac_sha256 demo_env) (WEBHOOK_SECRET demo_env) (data ?closed)
      (headers_get (X_Hub_Signature_256 ?closed) []) = Inr True"
    using demo_verified by simp
  have v2: "verify_signature (hmac_sha256 demo_env) (WEBHOOK_SECRET demo_env) (data ?push)
      (headers_get (X_Hub_Signature_256 ?push) []) = Inr True"
    using demo_verified by simp
  have j1: "json_payload ?closed = Inr (JObj [(''action'', JStr ''closed'')])" by simp
  have j2: "json_payload ?push = Inr demo_payload" by (simp add: demo_request_def)
  have e: "X_GitHub_Event ?closed = Some ''pull_request''"
    by (simp add: demo_request_def)
  show ?thesis
    using webhook_ignored [OF v1 j1, of "JStr ''closed''" demo_world]
      webhook_ignored [OF v2 j2, of JNull demo_world] e j1 j2 demo_verified
    by simp
qed

text \<open>
  Claim C8 as stated fails for a verified event that is not \<open>pull_request\<close> and whose
  body is not JSON: \<open>payload = request.json\<close> runs before the event filter and raises
  \<open>BadRequest\<close>, so the delivery is answered 400 and not 200 \<open>Ignored\<close> (still without
  any external call).
\<close>

theorem webhook_ignored_counterexample:
  "verify_signature (hmac_sha256 demo_env) (WEBHOOK_SECRET demo_env) (data ping_request)
     (headers_get (X_Hub_Signature_256 ping_request) []) = Inr True \<and>
   X_GitHub_Event ping_request = Some ''ping'' \<and>
   webhook demo_env ping_request demo_world = (demo_world, Inl BadRequest)"
  by (simp add: webhook_def ping_request_def verify_defs demo_defs headers_get_def)

subsection \<open>What the checks append\<close>

lemma append_issues_result:
  "append_issues items errs = (errs', Inr u) \<Longrightarrow>
     \<exists>lint. errs' = errs @ lint \<and> map issue_finding items = map Inr lint"
proof (induction items arbitrary: errs)
  case Nil
  then show ?case by simp
next
  case (Cons i rest)
  from Cons.prems obtain fd where fd: "issue_finding i = Inr fd"
    and rec: "append_issues rest (errs @ [fd]) = (errs', Inr u)"
    by (auto split: sum.splits)
  from Cons.IH [OF rec] obtain lint where
    "errs' = (errs @ [fd]) @ lint" "map issue_finding rest = map Inr lint" by blast
  with fd have "errs' = errs @ (fd # lint) \<and> map issue_finding (i # rest) = map Inr (fd # lint)"
    by simp
  then show ?case by blast
qed

lemma run_ruff_result:
  assumes "run_ruff ev self files w = (s', w', Inr u)"
  shows "\<exists>lint. lint_reported ev files lint \<and> s' = self\<lparr>errors := errors self @ lint\<rparr>"
proof (cases "files = []")
  case True
  with assms show ?thesis by (simp add: run_ruff_def lint_reported_def)
next
  case False
  with assms obtain p where p: "ruff_check ev = Inr p"
    by (auto simp add: run_ruff_def subprocess_run_def Let_def split: sum.splits)
  show ?thesis
  proof (cases "stdout p = []")
    case True
    with assms False p show ?thesis
      by (auto simp add: run_ruff_def subprocess_run_def Let_def lint_reported_def)
  next
    case out: False
    with assms False p obtain issues items errs where
      j: "json_loads ev (stdout p) = Some issues" and it: "py_iter issues = Inr items"
      and ap: "append_issues items (errors self) = (errs, Inr u)"
      and s': "s' = self\<lparr>errors := errs\<rparr>"
      by (auto simp add: run_ruff_def subprocess_run_def Let_def
          split: option.splits sum.splits prod.splits)
    from append_issues_result [OF ap] obtain lint where
      "errs = errors self @ lint" "map issue_finding items = map Inr lint" by blast
    with False p out j it s' show ?thesis
      by (auto simp add: lint_reported_def)
  qed
qed

lemma run_format_check_result:
  assumes "run_format_check ev self files w = (s', w', Inr u)"
  shows "s' = self\<lparr>errors := errors self @ format_reported ev files\<rparr>"
  using assms
  by (auto simp add: run_format_check_def subprocess_run_def Let_def format_reported_def
      split: sum.splits if_splits)

lemma run_pytest_result:
  assumes "run_pytest ev self w = (s', w', Inr u)"
  shows "s' = self\<lparr>errors := errors self @ test_reported ev\<rparr>"
  using assms
  by (auto simp add: run_pytest_def subprocess_run_def Let_def test_reported_def
      split: sum.splits if_splits)

lemma changed_python_files_result:
  assumes "changed_python_files ev self w = (w', Inr files)"
  shows "files = scoped_files ev"
  using assms
  by (auto simp add: changed_python_files_def run_def subprocess_run_def Let_def
      scoped_files_def split: sum.splits if_splits)

lemma run_all_findings:
  assumes "run_all ev self w = (r, w', Inr s)"
  shows "\<exists>lint. lint_reported ev (scoped_files ev) lint \<and>
           errors r = errors self @ lint @ format_reported ev (scoped_files ev) @
                      test_reported ev"
proof -
  from assms obtain w1 files where 1: "changed_python_files ev self w = (w1, Inr files)"
    by (auto simp add: run_all_def split: prod.splits sum.splits)
  from assms 1 obtain s2 w2 u2 where 2: "run_ruff ev self files w1 = (s2, w2, Inr u2)"
    by (auto simp add: run_all_def split: prod.splits sum.splits)
  from assms 1 2 obtain s3 w3 u3 where 3: "run_format_check ev s2 files w2 = (s3, w3, Inr u3)"
    by (auto simp add: run_all_def split: prod.splits sum.splits)
  from assms 1 2 3 obtain w4 u4 where 4: "run_pytest ev s3 w3 = (r, w4, Inr u4)"
    by (auto simp add: run_all_def split: prod.splits sum.splits)
  have f: "files = scoped_files ev" using 1 by (rule changed_python_files_result)
  from run_ruff_result [OF 2] obtain lint where
    l: "lint_reported ev files lint" and s2: "s2 = self\<lparr>errors := errors self @ lint\<rparr>"
    by blast
  have s3: "s3 = s2\<lparr>errors := errors s2 @ format_reported ev files\<rparr>"
    using 3 by (rule run_format_check_result)
  have r: "r = s3\<lparr>errors := errors s3 @ test_reported ev\<rparr>"
    using 4 by (rule run_pytest_result)
  from l f s2 s3 r show ?thesis by auto
qed

text \<open>
  Claim C9. When \<open>run_all\<close> returns, its flag is true exactly when the accumulated
  findings are empty, and these findings are the earlier ones followed by what the
  linter's output holds, what the format check reports and what the test run reports,
  each kept in full; so on a fresh reviewer the flag is true exactly when none of the
  three checks reports a finding. And whenever the handler answers \<open>{success: b}\<close>, the
  status code is 200 and \<open>b\<close> is the flag returned by \<open>run_all\<close> on the reviewer of this
  delivery, true exactly when that reviewer's findings are empty.
\<close>

theorem success_iff_no_findings:
  "(run_all ev self w = (r, w', Inr s) \<longrightarrow>
      s = (errors r = []) \<and>
      (\<exists>lint. lint_reported ev (scoped_files ev) lint \<and>
         errors r = errors self @ lint @ format_reported ev (scoped_files ev) @
                    test_reported ev \<and>
         (errors self = [] \<longrightarrow>
            s = (lint = [] \<and> format_reported ev (scoped_files ev) = [] \<and>
                 test_reported ev = [])))) \<and>
   (snd (webhook ev req w0) = Inr (SuccessBody b, c) \<longrightarrow>
      c = 200 \<and>
      (\<exists>payload f r1 w1 wa wb.
         json_payload req = Inr payload \<and>
         webhook_fields payload = Inr f \<and>
         webhook_review ev f w0 = (w1, Inr (r1, b)) \<and>
         run_all ev \<lparr>repo_url = pr_clone_url f, base_ref = pr_base_ref f,
                     head_sha = pr_head_sha f, errors = []\<rparr> wa = (r1, wb, Inr b) \<and>
         b = (errors r1 = [])))"
proof (intro conjI impI)
  assume a: "run_all ev self w = (r, w', Inr s)"
  then show flag: "s = (errors r = [])" by (rule run_all_flag)
  from run_all_findings [OF a] obtain lint where
    l: "lint_reported ev (scoped_files ev) lint" and
    e: "errors r = errors self @ lint @ format_reported ev (scoped_files ev) @ test_reported ev"
    by blast
  from flag e have "errors self = [] \<longrightarrow>
            s = (lint = [] \<and> format_reported ev (scoped_files ev) = [] \<and>
                 test_reported ev = [])"
    by simp
  with l e show "\<exists>lint. lint_reported ev (scoped_files ev) lint \<and>
         errors r = errors self @ lint @ format_reported ev (scoped_files ev) @
                    test_reported ev \<and>
         (errors self = [] \<longrightarrow>
            s = (lint = [] \<and> format_reported ev (scoped_files ev) = [] \<and>
                 test_reported ev = []))"
    by blast
next
  assume a: "snd (webhook ev req w0) = Inr (SuccessBody b, c)"
  then obtain payload f where p: "json_payload req = Inr payload"
    and f: "webhook_fields payload = Inr f"
    and rep: "webhook ev req w0 =
        (case webhook_review ev f w0 of
           (w1, Inl e) \<Rightarrow> (w1, Inl e)
         | (w1, Inr (r, success)) \<Rightarrow> webhook_report ev f r success w1)"
    by (auto simp add: webhook_def split: sum.splits if_splits)
  obtain w1 res where rv: "webhook_review ev f w0 = (w1, res)"
    by (cases "webhook_review ev f w0")
  from a rep rv obtain r1 b' where res: "res = Inr (r1, b')"
    by (cases res) auto
  with a rep rv have sn: "snd (webhook_report ev f r1 b' w1) = Inr (SuccessBody b, c)"
    by simp
  then have bc: "b' = b \<and> c = 200"
    by (auto simp add: webhook_report_def Let_def split: prod.splits sum.splits)
  then show "c = 200" by simp
  from rv res bc have rv': "webhook_review ev f w0 = (w1, Inr (r1, b))" by simp
  from webhook_review_run_all [OF rv'] obtain wa wb where
    "run_all ev \<lparr>repo_url = pr_clone_url f, base_ref = pr_base_ref f,
                 head_sha = pr_head_sha f, errors = []\<rparr> wa = (r1, wb, Inr b)"
    by blast
  with p f rv' webhook_review_flag [OF rv']
  show "\<exists>payload f r1 w1 wa wb.
         json_payload req = Inr payload \<and>
         webhook_fields payload = Inr f \<and>
         webhook_review ev f w0 = (w1, Inr (r1, b)) \<and>
         run_all ev \<lparr>repo_url = pr_clone_url f, base_ref = pr_base_ref f,
                     head_sha = pr_head_sha f, errors = []\<rparr> wa = (r1, wb, Inr b) \<and>
         b = (errors r1 = [])"
    by blast
qed

lemma demo_run_findings:
  "snd (webhook (demo_env\<lparr>ruff_format := Inr \<lparr>returncode = 1, stdout = ''Would reformat: app.py''\<rparr>\<rparr>)
          demo_request demo_world) = Inr (SuccessBody False, 200)"
  by (simp add: handler_defs run_defs demo_defs verify_defs suffix_to_prefix Let_def
      BOT_MARKER_def sublist_code)

theorem success_iff_no_findings_witness:
  "run_all (demo_env\<lparr>ruff_format := Inr \<lparr>returncode = 1, stdout = ''Would reformat: app.py''\<rparr>\<rparr>)
     demo_reviewer demo_world
     = (demo_reviewer\<lparr>errors := [format_finding ''app.py'']\<rparr>,
        demo_world\<lparr>trace :=
          [Run [JStr ''git'', JStr ''diff'', JStr ''--name-only'', JStr ''origin/main'',
                JStr ''abc123''],
           Run [JStr ''ruff'', JStr ''check'', JStr ''--output-format=json'', JStr ''app.py''],
           Run [JStr ''ruff'', JStr ''format'', JStr ''--check'', JStr ''app.py''],
           Run [JStr ''pytest'', JStr ''-q'']]\<rparr>,
        Inr False) \<and>
   errors demo_reviewer = [] \<and>
   scoped_files (demo_env\<lparr>ruff_format := Inr \<lparr>returncode = 1, stdout = ''Would reformat: app.py''\<rparr>\<rparr>)
     = [''app.py''] \<and>
   lint_reported (demo_env\<lparr>ruff_format := Inr \<lparr>returncode = 1, stdout = ''Would reformat: app.py''\<rparr>\<rparr>)
     [''app.py''] [] \<and>
   format_reported (demo_env\<lparr>ruff_format := Inr \<lparr>returncode = 1, stdout = ''Would reformat: app.py''\<rparr>\<rparr>)
     [''app.py''] = [format_finding ''app.py''] \<and>
   test_reported (demo_env\<lparr>ruff_format := Inr \<lparr>returncode = 1, stdout = ''Would reformat: app.py''\<rparr>\<rparr>)
     = [] \<and>
   False = (errors (demo_reviewer\<lparr>errors := [format_finding ''app.py'']\<rparr>) = []) \<and>
   snd (webhook (demo_env\<lparr>ruff_format := Inr \<lparr>returncode = 1, stdout = ''Would reformat: app.py''\<rparr>\<rparr>)
          demo_request demo_world) = Inr (SuccessBody False, 200) \<and>
   (\<exists>payload f r1 w1 wa wb.
      json_payload demo_request = Inr payload \<and>
      webhook_fields payload = Inr f \<and>
      webhook_review
        (demo_env\<lparr>ruff_format := Inr \<lparr>returncode = 1, stdout = ''Would reformat: app.py''\<rparr>\<rparr>)
        f demo_world = (w1, Inr (r1, False)) \<and>
      run_all (demo_env\<lparr>ruff_format := Inr \<lparr>returncode = 1, stdout = ''Would reformat: app.py''\<rparr>\<rparr>)
        \<lparr>repo_url = pr_clone_url f, base_ref = pr_base_ref f, head_sha = pr_head_sha f,
         errors = []\<rparr> wa = (r1, wb, Inr False) \<and>
      False = (errors r1 = []))"
proof -
  let ?ev = "demo_env\<lparr>ruff_format := Inr \<lparr>returncode = 1, stdout = ''Would reformat: app.py''\<rparr>\<rparr>"
  have a: "run_all ?ev demo_reviewer demo_world
     = (demo_reviewer\<lparr>errors := [format_finding ''app.py'']\<rparr>,
        demo_world\<lparr>trace :=
          [Run [JStr ''git'', JStr ''diff'', JStr ''--name-only'', JStr ''origin/main'',
                JStr ''abc123''],
           Run [JStr ''ruff'', JStr ''check'', JStr ''--output-format=json'', JStr ''app.py''],
           Run [JStr ''ruff'', JStr ''format'', JStr ''--check'', JStr ''app.py''],
           Run [JStr ''pytest'', JStr ''-q'']]\<rparr>,
        Inr False)"
    by (simp add: run_all_def changed_python_files_def run_ruff_def run_format_check_def
        run_pytest_def run_defs demo_defs suffix_to_prefix)
  have sc: "scoped_files ?ev = [''app.py'']"
    by (simp add: scoped_files_def demo_defs suffix_to_prefix)
  have li: "lint_reported ?ev [''app.py''] []"
    by (simp add: lint_reported_def demo_defs)
  have fo: "format_reported ?ev [''app.py''] = [format_finding ''app.py'']"
    by (simp add: format_reported_def demo_defs)
  have te: "test_reported ?ev = []"
    by (simp add: test_reported_def demo_defs)
  have n0: "errors demo_reviewer = []" by (simp add: demo_reviewer_def)
  from success_iff_no_findings
    [of ?ev demo_reviewer demo_world "demo_reviewer\<lparr>errors := [format_finding ''app.py'']\<rparr>"
        _ False demo_request demo_world False 200]
    a demo_run_findings sc li fo te n0
  show ?thesis by simp
qed

end
